theory Spec2Isabelle
  imports Main "HOL-Library.AList"
begin

section \<open>Package env: tag-directed conversion of environment values (var.go)\<close>

text \<open>
  A shallow embedding of \<^verbatim>\<open>var.go\<close>. Go's reflection handles are data here:
  a \<^verbatim>\<open>reflect.Type\<close> is a record of what the code asks of it, a
  \<^verbatim>\<open>reflect.Value\<close> is either the zero Value (what
  \<^verbatim>\<open>reflect.ValueOf(nil)\<close> returns) or a type with its data. Functions that
  return \<^verbatim>\<open>(reflect.Value, error)\<close> return a pair whose second component is
  \<open>None\<close> for a nil error. A panic of the runtime is a result of its own.
\<close>

subsection \<open>Types and values of package reflect\<close>

datatype kind =
    reflect_Invalid | reflect_Bool
  | reflect_Int | reflect_Int8 | reflect_Int16 | reflect_Int32 | reflect_Int64
  | reflect_Uint | reflect_Uint8 | reflect_Uint16 | reflect_Uint32 | reflect_Uint64
  | reflect_Uintptr | reflect_Float32 | reflect_Float64
  | reflect_Complex64 | reflect_Complex128
  | reflect_Array | reflect_Chan | reflect_Func | reflect_Interface | reflect_Map
  | reflect_Pointer | reflect_Slice | reflect_String | reflect_Struct
  | reflect_UnsafePointer

text \<open>\<^verbatim>\<open>Kind.String()\<close>: the names package reflect prints.\<close>

fun kind_String :: "kind \<Rightarrow> string" where
  "kind_String reflect_Invalid = ''invalid''"
| "kind_String reflect_Bool = ''bool''"
| "kind_String reflect_Int = ''int''"
| "kind_String reflect_Int8 = ''int8''"
| "kind_String reflect_Int16 = ''int16''"
| "kind_String reflect_Int32 = ''int32''"
| "kind_String reflect_Int64 = ''int64''"
| "kind_String reflect_Uint = ''uint''"
| "kind_String reflect_Uint8 = ''uint8''"
| "kind_String reflect_Uint16 = ''uint16''"
| "kind_String reflect_Uint32 = ''uint32''"
| "kind_String reflect_Uint64 = ''uint64''"
| "kind_String reflect_Uintptr = ''uintptr''"
| "kind_String reflect_Float32 = ''float32''"
| "kind_String reflect_Float64 = ''float64''"
| "kind_String reflect_Complex64 = ''complex64''"
| "kind_String reflect_Complex128 = ''complex128''"
| "kind_String reflect_Array = ''array''"
| "kind_String reflect_Chan = ''chan''"
| "kind_String reflect_Func = ''func''"
| "kind_String reflect_Interface = ''interface''"
| "kind_String reflect_Map = ''map''"
| "kind_String reflect_Pointer = ''ptr''"
| "kind_String reflect_Slice = ''slice''"
| "kind_String reflect_String = ''string''"
| "kind_String reflect_Struct = ''struct''"
| "kind_String reflect_UnsafePointer = ''unsafe.Pointer''"

text \<open>
  A \<^verbatim>\<open>reflect.Type\<close>, by the four methods that decide what this package does with
  it: \<^verbatim>\<open>Kind()\<close>, \<^verbatim>\<open>String()\<close>, \<^verbatim>\<open>PkgPath()\<close> (two types
  of different packages may print alike) and \<^verbatim>\<open>Comparable()\<close>. Two types are the
  same type when the four agree.
\<close>

record rtype =
  Kind :: kind
  String :: string
  PkgPath :: string
  Comparable :: bool

definition string_type :: rtype where
  "string_type = \<lparr>Kind = reflect_String, String = ''string'', PkgPath = [], Comparable = True\<rparr>"

definition int_type :: rtype where
  "int_type = \<lparr>Kind = reflect_Int, String = ''int'', PkgPath = [], Comparable = True\<rparr>"

definition bool_type :: rtype where
  "bool_type = \<lparr>Kind = reflect_Bool, String = ''bool'', PkgPath = [], Comparable = True\<rparr>"

text \<open>\<^verbatim>\<open>time.Duration\<close> of the standard library: an \<^verbatim>\<open>int64\<close> of nanoseconds.\<close>

definition time_Duration :: rtype where
  "time_Duration =
     \<lparr>Kind = reflect_Int64, String = ''time.Duration'', PkgPath = ''time'', Comparable = True\<rparr>"

text \<open>\<^verbatim>\<open>reflect.TypeOf(reflect.Int)\<close>: the type of a kind constant, \<^verbatim>\<open>reflect.Kind\<close>.\<close>

definition reflect_Kind_type :: rtype where
  "reflect_Kind_type =
     \<lparr>Kind = reflect_Uint, String = ''reflect.Kind'', PkgPath = ''reflect'', Comparable = True\<rparr>"

text \<open>
  What a value holds. Strings, integers and booleans are what the parsers of this package
  build; sequences and mappings are what the structured decoder builds; \<open>Zero_data\<close> is
  the zero value of a type of any other kind, which the model leaves abstract.
  Floating-point data is not modelled.
\<close>

datatype data =
    String_data string
  | Int_data int
  | Bool_data bool
  | Seq_data "data list"
  | Map_data "(data \<times> data) list"
  | Zero_data

datatype rvalue = Invalid | Val rtype data

text \<open>\<^verbatim>\<open>reflect.Zero(t)\<close>.\<close>

definition zero_data :: "rtype \<Rightarrow> data" where
  "zero_data t =
     (if Kind t = reflect_String then String_data []
      else if Kind t = reflect_Bool then Bool_data False
      else if Kind t \<in> {reflect_Int, reflect_Int8, reflect_Int16, reflect_Int32, reflect_Int64,
                        reflect_Uint, reflect_Uint8, reflect_Uint16, reflect_Uint32,
                        reflect_Uint64, reflect_Uintptr} then Int_data 0
      else Zero_data)"

definition reflect_Zero :: "rtype \<Rightarrow> rvalue" where
  "reflect_Zero t = Val t (zero_data t)"

text \<open>
  \<^verbatim>\<open>v.Interface()\<close> panics on the zero Value (\<open>None\<close>); otherwise it is the value with
  its dynamic type. \<^verbatim>\<open>s.Interface() == v.Interface()\<close> evaluates both operands, then
  compares: values of different dynamic types are unequal, values of one type that is not
  comparable make the runtime panic.
\<close>

fun Interface :: "rvalue \<Rightarrow> (rtype \<times> data) option" where
  "Interface Invalid = None"
| "Interface (Val t d) = Some (t, d)"

definition Interface_eq :: "rvalue \<Rightarrow> rvalue \<Rightarrow> bool option" where
  "Interface_eq s v =
     (case Interface s of
        None \<Rightarrow> None
      | Some (ts, ds) \<Rightarrow>
          (case Interface v of
             None \<Rightarrow> None
           | Some (tv, dv) \<Rightarrow>
               if ts \<noteq> tv then Some False
               else if \<not> Comparable ts then None
               else Some (ds = dv)))"

subsection \<open>Errors\<close>

text \<open>
  The error values of the package: \<open>errConversion v t\<close> is
  \<^verbatim>\<open>&errConversion{Value: v, Type: t}\<close>; \<open>errorString m\<close> is an error made by
  \<^verbatim>\<open>fmt.Errorf\<close> from string operands only, with its message;
  \<open>errNotAllowed key v options\<close> is
  \<^verbatim>\<open>fmt.Errorf(`%v="%v" not in allowed options: %v`, key, v, options)\<close>, kept with its
  operands (how package fmt prints a \<^verbatim>\<open>reflect.Value\<close> is not modelled);
  \<open>errDuration s\<close> is an error of \<^verbatim>\<open>time.ParseDuration\<close> for the text \<open>s\<close>.
\<close>

datatype error =
    errConversion string string
  | errorString string
  | errNotAllowed string rvalue "rvalue list"
  | errDuration string

definition conversionError :: "string \<Rightarrow> string \<Rightarrow> error" where
  "conversionError v t = errConversion v t"

fun Error :: "error \<Rightarrow> string option" where
  "Error (errConversion v t) =
     Some (''could not convert value \"'' @ v @ ''\" into '' @ t @ '' type'')"
| "Error (errorString m) = Some m"
| "Error (errDuration s) = None"
| "Error (errNotAllowed k v os) = None"

subsection \<open>What the package uses of other packages\<close>

text \<open>
  The code calls three library functions whose definitions are long and lie outside the
  repository. They are parameters of the model, so that every theorem holds for whatever
  they compute:
  \<^item> \<open>time_ParseDuration\<close> is \<^verbatim>\<open>time.ParseDuration\<close>: the duration in nanoseconds
    and the error;
  \<^item> \<open>yaml_Unmarshal text t\<close> is \<^verbatim>\<open>yaml.Unmarshal([]byte(text), a.Interface())\<close> for
    \<^verbatim>\<open>a := reflect.New(t)\<close>: \<open>None\<close> when the decoder reports an error, otherwise
    the data \<^verbatim>\<open>a.Elem()\<close> holds afterwards;
  \<^item> \<open>unicode_ToUpper\<close> is \<^verbatim>\<open>strings.Map(unicode.ToUpper, s)\<close>, the path
    \<^verbatim>\<open>strings.ToUpper\<close> takes for a string with a byte outside ASCII.
\<close>

record ext =
  time_ParseDuration :: "string \<Rightarrow> int \<times> error option"
  yaml_Unmarshal :: "string \<Rightarrow> rtype \<Rightarrow> data option"
  unicode_ToUpper :: "string \<Rightarrow> string"

subsection \<open>Package strings\<close>

definition byte :: "char \<Rightarrow> nat" where
  "byte c = of_char c"

text \<open>
  \<^verbatim>\<open>strings.Split(s, sep)\<close> for a separator of one byte: the pieces of \<open>s\<close> between the
  separators, one more piece than there are separators (so the empty string gives one
  empty piece). \<open>split_from\<close> scans the string and keeps the piece it is reading, last
  byte first.
\<close>

fun split_from :: "string \<Rightarrow> char \<Rightarrow> string \<Rightarrow> string list" where
  "split_from [] sep piece = [rev piece]"
| "split_from (c # cs) sep piece =
     (if c = sep then rev piece # split_from cs sep []
      else split_from cs sep (c # piece))"

definition Split :: "string \<Rightarrow> char \<Rightarrow> string list" where
  "Split s sep = split_from s sep []"

text \<open>
  \<^verbatim>\<open>strings.ToUpper\<close>: a string of ASCII bytes only has its letters \<open>a\<close> to \<open>z\<close>
  moved down by \<^verbatim>\<open>'a' - 'A'\<close>; any other string goes through the Unicode tables.
\<close>

definition isASCII :: "string \<Rightarrow> bool" where
  "isASCII s = list_all (\<lambda>c. byte c < 128) s"

definition upper_byte :: "char \<Rightarrow> char" where
  "upper_byte c = (if 97 \<le> byte c \<and> byte c \<le> 122 then char_of (byte c - 32) else c)"

definition ToUpper :: "ext \<Rightarrow> string \<Rightarrow> string" where
  "ToUpper x s = (if isASCII s then map upper_byte s else unicode_ToUpper x s)"

subsection \<open>Package strconv\<close>

text \<open>
  \<^verbatim>\<open>strconv.Atoi\<close> on a 64-bit platform: an optional sign, then one or more decimal
  digits, and the number must fit \<^verbatim>\<open>int\<close>; \<open>None\<close> is its error.
\<close>

definition isDigit :: "char \<Rightarrow> bool" where
  "isDigit c = (48 \<le> byte c \<and> byte c \<le> 57)"

definition digits_val :: "string \<Rightarrow> int" where
  "digits_val ds = foldl (\<lambda>n c. n * 10 + (int (byte c) - 48)) 0 ds"

definition Atoi :: "string \<Rightarrow> int option" where
  "Atoi s =
     (let neg = (s \<noteq> [] \<and> hd s = CHR ''-'');
          ds = (if s \<noteq> [] \<and> (hd s = CHR ''-'' \<or> hd s = CHR ''+'') then tl s else s)
      in if ds = [] \<or> \<not> list_all isDigit ds then None
         else let i = (if neg then - digits_val ds else digits_val ds)
              in if - (2 ^ 63) \<le> i \<and> i < 2 ^ 63 then Some i else None)"

text \<open>\<^verbatim>\<open>strconv.ParseBool\<close>: twelve spellings, anything else is an error.\<close>

definition ParseBool :: "string \<Rightarrow> bool option" where
  "ParseBool s =
     (if s \<in> set [''1'', ''t'', ''T'', ''TRUE'', ''true'', ''True''] then Some True
      else if s \<in> set [''0'', ''f'', ''F'', ''FALSE'', ''false'', ''False''] then Some False
      else None)"

subsection \<open>The converters\<close>

text \<open>\<^verbatim>\<open>parseInt\<close> and \<^verbatim>\<open>parseBool\<close>, with their branch for the empty string.\<close>

definition parseInt :: "string \<Rightarrow> rvalue \<times> error option" where
  "parseInt raw =
     (if raw = [] then (reflect_Zero reflect_Kind_type, None)
      else case Atoi raw of
             None \<Rightarrow> (Invalid, Some (conversionError raw ''int''))
           | Some i \<Rightarrow> (Val int_type (Int_data i), None))"

definition parseBool :: "string \<Rightarrow> rvalue \<times> error option" where
  "parseBool raw =
     (if raw = [] then (reflect_Zero reflect_Kind_type, None)
      else case ParseBool raw of
             None \<Rightarrow> (Invalid, Some (conversionError raw ''bool''))
           | Some b \<Rightarrow> (Val bool_type (Bool_data b), None))"

text \<open>
  \<^verbatim>\<open>parseYaml\<close>: the decoder fills a new value of type \<open>t\<close>; its error becomes a
  conversion error that names the kind and the type. (The source also prints the decoder's
  error to standard output, which the model leaves out.)
\<close>

definition parseYaml :: "ext \<Rightarrow> rtype \<Rightarrow> string \<Rightarrow> rvalue \<times> error option" where
  "parseYaml x t raw =
     (case yaml_Unmarshal x raw t of
        None \<Rightarrow>
          (Invalid,
           Some (conversionError raw
                   (''yaml conversion error; Kind(): '' @ kind_String (Kind t) @
                    ''; Type(): '' @ String t)))
      | Some d \<Rightarrow> (Val t d, None))"

definition parseSlice :: "ext \<Rightarrow> rtype \<Rightarrow> string \<Rightarrow> rvalue \<times> error option" where
  "parseSlice x t raw = parseYaml x t raw"

definition parseMap :: "ext \<Rightarrow> rtype \<Rightarrow> string \<Rightarrow> rvalue \<times> error option" where
  "parseMap x t raw = parseYaml x t raw"

definition convertWithKind :: "ext \<Rightarrow> rtype \<Rightarrow> string \<Rightarrow> rvalue \<times> error option" where
  "convertWithKind x t raw =
     (if raw = [] then (Invalid, None)
      else if Kind t = reflect_String then (Val string_type (String_data raw), None)
      else if Kind t = reflect_Int then parseInt raw
      else if Kind t = reflect_Bool then parseBool raw
      else if Kind t = reflect_Slice then parseSlice x t raw
      else if Kind t = reflect_Map then parseMap x t raw
      else (Invalid, Some (conversionError raw (''unsupported '' @ kind_String (Kind t)))))"

text \<open>
  \<^verbatim>\<open>convertWithType\<close> switches on the printed name of the type. For
  \<^verbatim>\<open>"time.Duration"\<close> it returns the parsed duration, as a value of the library's
  type, together with the parser's error.
\<close>

definition convertWithType :: "ext \<Rightarrow> rtype \<Rightarrow> string \<Rightarrow> rvalue \<times> error option" where
  "convertWithType x t raw =
     (if String t = ''time.Duration''
      then (case time_ParseDuration x raw of
              (result, err) \<Rightarrow> (Val time_Duration (Int_data result), err))
      else (Invalid, Some (conversionError raw (''unsupported type '' @ String t))))"

definition convertWithYaml :: "ext \<Rightarrow> rtype \<Rightarrow> string \<Rightarrow> rvalue \<times> error option" where
  "convertWithYaml x t raw = parseYaml x t raw"

text \<open>
  \<^verbatim>\<open>convert\<close>: the empty string is the zero Value with no error; otherwise the decode
  strategy chooses the converter. With no strategy the type converter runs first and the
  kind converter runs when the type converter returned an error.
\<close>

definition convert :: "ext \<Rightarrow> rtype \<Rightarrow> string \<Rightarrow> string \<Rightarrow> rvalue \<times> error option" where
  "convert x t raw decode =
     (if raw = [] then (Invalid, None)
      else if decode = [] then
        (case convertWithType x t raw of
           (val, err) \<Rightarrow> if err \<noteq> None then convertWithKind x t raw else (val, err))
      else if decode = ''kind'' then convertWithKind x t raw
      else if decode = ''type'' then convertWithType x t raw
      else if decode = ''yaml'' then convertWithYaml x t raw
      else (Invalid, Some (conversionError decode ''unsupported decode'')))"

subsection \<open>The descriptor\<close>

record Var =
  Name :: string
  Key :: string
  Type :: rtype
  Value :: rvalue
  Required :: bool
  Decode :: string
  Default :: rvalue
  Options :: "rvalue list"

text \<open>
  What the code reads of a \<^verbatim>\<open>reflect.StructField\<close>: its name, its type and
  \<^verbatim>\<open>field.Tag.Get("env")\<close>.
\<close>

record StructField =
  field_Name :: string
  field_Type :: rtype
  field_Tag :: string

text \<open>
  \<^verbatim>\<open>&Var{}\<close>. Its \<^verbatim>\<open>Type\<close> is the nil interface, which \<open>Parse\<close> overwrites with
  the field's type before anything reads it; the model writes a type of the invalid kind
  for it.
\<close>

definition nil_Type :: rtype where
  "nil_Type = \<lparr>Kind = reflect_Invalid, String = ''<nil>'', PkgPath = [], Comparable = True\<rparr>"

definition new_Var :: Var where
  "new_Var = \<lparr>Name = [], Key = [], Type = nil_Type, Value = Invalid, Required = False,
               Decode = [], Default = Invalid, Options = []\<rparr>"

definition SetValue :: "Var \<Rightarrow> rvalue \<Rightarrow> Var" where
  "SetValue v val = v\<lparr>Value := val\<rparr>"

definition SetName :: "Var \<Rightarrow> string \<Rightarrow> Var" where
  "SetName v s = v\<lparr>Name := s\<rparr>"

definition SetType :: "Var \<Rightarrow> rtype \<Rightarrow> Var" where
  "SetType v t = v\<lparr>Type := t\<rparr>"

definition SetRequired :: "Var \<Rightarrow> bool \<Rightarrow> Var" where
  "SetRequired v b = v\<lparr>Required := b\<rparr>"

definition SetDecode :: "Var \<Rightarrow> string \<Rightarrow> Var" where
  "SetDecode v s = v\<lparr>Decode := s\<rparr>"

definition SetDefault :: "Var \<Rightarrow> rvalue \<Rightarrow> Var" where
  "SetDefault v val = v\<lparr>Default := val\<rparr>"

definition SetOptions :: "Var \<Rightarrow> rvalue list \<Rightarrow> Var" where
  "SetOptions v vals = v\<lparr>Options := vals\<rparr>"

definition SetKey :: "ext \<Rightarrow> Var \<Rightarrow> string \<Rightarrow> Var" where
  "SetKey x v s = v\<lparr>Key := ToUpper x s\<rparr>"

subsection \<open>Parse\<close>

text \<open>
  The map \<^verbatim>\<open>tagParamsMap\<close> is an association list with one entry for each key: the
  tokens of the tag are stored from left to right, a later token with the same key
  overwrites the value. \<^verbatim>\<open>option[0]\<close> always exists, since \<open>Split\<close> returns at
  least one piece.
\<close>

definition tagParam_key :: "string \<Rightarrow> string" where
  "tagParam_key tagParam = hd (Split tagParam CHR ''='')"

definition tagParam_value :: "string \<Rightarrow> string" where
  "tagParam_value tagParam =
     (let option = Split tagParam CHR ''=''
      in if length option > 1 then option ! 1 else [])"

definition tagParamsMap :: "string \<Rightarrow> (string \<times> string) list" where
  "tagParamsMap tag =
     foldl (\<lambda>m tagParam. AList.update (tagParam_key tagParam) (tagParam_value tagParam) m)
       [] (Split tag CHR '' '')"

text \<open>
  Go visits the entries of a map in an order that the language leaves open and the runtime
  randomises. The order is a parameter of the model: \<open>rank\<close> gives every key its place,
  and \<^verbatim>\<open>range\<close> visits the entries by increasing rank. Every order of the entries is the
  order of some \<open>rank\<close>.
\<close>

definition range_order :: "(string \<Rightarrow> nat) \<Rightarrow> (string \<times> string) list \<Rightarrow> (string \<times> string) list" where
  "range_order rank m = sort_key (\<lambda>kv. rank (fst kv)) m"

text \<open>
  The loop over the elements of an \<^verbatim>\<open>options\<close> directive: each is converted in turn,
  and the first error ends the loop.
\<close>

fun convert_options :: "ext \<Rightarrow> rtype \<Rightarrow> string \<Rightarrow> string list \<Rightarrow> error + rvalue list" where
  "convert_options x t decode [] = Inr []"
| "convert_options x t decode (val # rest) =
     (case convert x t val decode of
        (v1, Some err) \<Rightarrow> Inl err
      | (v1, None) \<Rightarrow>
          (case convert_options x t decode rest of
             Inl err \<Rightarrow> Inl err
           | Inr vals \<Rightarrow> Inr (v1 # vals)))"

text \<open>
  The body of the loop over the remaining tags is the \<^verbatim>\<open>switch\<close>: the descriptor
  after the entry, and the error when a conversion fails. The loop ends at the first error,
  and \<open>Parse\<close> returns it with the descriptor as it then is.
\<close>

definition process_tag :: "ext \<Rightarrow> Var \<Rightarrow> string \<Rightarrow> string \<Rightarrow> Var \<times> error option" where
  "process_tag x v key val =
     (if key = ''key'' then (SetKey x v val, None)
      else if key = ''required'' then (SetRequired v True, None)
      else if key = ''decode'' then (SetDecode v val, None)
      else if key = ''default'' then
        (case convert x (Type v) val (Decode v) of
           (d, Some err) \<Rightarrow> (v, Some err)
         | (d, None) \<Rightarrow> (SetDefault v d, None))
      else if key = ''options'' then
        (case convert_options x (Type v) (Decode v) (Split val CHR '','') of
           Inl err \<Rightarrow> (v, Some err)
         | Inr vals \<Rightarrow> (SetOptions v vals, None))
      else (v, None))"

fun process_tags :: "ext \<Rightarrow> Var \<Rightarrow> (string \<times> string) list \<Rightarrow> Var \<times> error option" where
  "process_tags x v [] = (v, None)"
| "process_tags x v ((key, val) # rest) =
     (case process_tag x v key val of
        (v', Some err) \<Rightarrow> (v', Some err)
      | (v', None) \<Rightarrow> process_tags x v' rest)"

definition Parse :: "ext \<Rightarrow> (string \<Rightarrow> nat) \<Rightarrow> Var \<Rightarrow> StructField \<Rightarrow> Var \<times> error option" where
  "Parse x rank v0 field =
     (let v = SetName v0 (field_Name field);
          v = SetType v (field_Type field);
          v = SetKey x v (Name v);
          tag = field_Tag field
      in if tag = [] then (v, None)
         else
           let m = tagParamsMap tag
           in case map_of m ''decode'' of
                Some val \<Rightarrow>
                  process_tags x (SetDecode v val) (range_order rank (AList.delete ''decode'' m))
              | None \<Rightarrow> process_tags x v (range_order rank m))"

subsection \<open>NewVarWithFunc\<close>

text \<open>
  \<^verbatim>\<open>optionsContains\<close>: \<open>None\<close> when a comparison panics before an equal option is found.
\<close>

fun options_loop :: "rvalue list \<Rightarrow> rvalue \<Rightarrow> bool option" where
  "options_loop [] s = Some False"
| "options_loop (v # vs) s =
     (case Interface_eq s v of
        None \<Rightarrow> None
      | Some True \<Rightarrow> Some True
      | Some False \<Rightarrow> options_loop vs s)"

definition optionsContains :: "Var \<Rightarrow> rvalue \<Rightarrow> bool option" where
  "optionsContains v s = options_loop (Options v) s"

datatype result = Panic | Return Var "error option"

text \<open>
  \<^verbatim>\<open>NewVarWithFunc\<close>. The error \<open>Parse\<close> returns is not read. \<open>get\<close> is the
  lookup function, \<^verbatim>\<open>os.Getenv\<close> in \<^verbatim>\<open>NewVar\<close>.
\<close>

definition NewVarWithFunc :: "ext \<Rightarrow> (string \<Rightarrow> nat) \<Rightarrow> StructField \<Rightarrow> (string \<Rightarrow> string) \<Rightarrow> result" where
  "NewVarWithFunc x rank field get =
     (let newVar = fst (Parse x rank new_Var field)
      in case convert x (Type newVar) (get (Key newVar)) (Decode newVar) of
           (val, Some err) \<Rightarrow> Return newVar (Some err)
         | (val, None) \<Rightarrow>
             let newVar = SetValue newVar val
             in if val = Invalid \<and> Required newVar
                then Return newVar (Some (errorString (Key newVar @ '' required'')))
                else
                  let newVar =
                        (if val = Invalid
                         then (if Default newVar \<noteq> Invalid
                               then SetValue newVar (Default newVar)
                               else SetValue newVar (reflect_Zero (Type newVar)))
                         else newVar)
                  in if length (Options newVar) > 0
                     then (case optionsContains newVar (Value newVar) of
                             None \<Rightarrow> Panic
                           | Some False \<Rightarrow>
                               Return newVar
                                 (Some (errNotAllowed (Key newVar) (Value newVar) (Options newVar)))
                           | Some True \<Rightarrow> Return newVar None)
                     else Return newVar None)"

subsection \<open>The library functions, for examples\<close>

text \<open>
  The theorems below hold for every \<open>ext\<close>. To evaluate the code on a concrete input the
  three functions need values. \<open>ParseDuration\<close> follows \<^verbatim>\<open>time.ParseDuration\<close>: an
  optional sign, then \<^verbatim>\<open>0\<close> or one or more numbers with a unit, every number a run of
  digits with an optional fraction, and the total must fit 63 bits. Where the library
  multiplies a fraction in \<^verbatim>\<open>float64\<close>, the model computes in exact arithmetic. The
  library's three messages are one error here, \<open>errDuration\<close> with the text.
\<close>

definition unitMap :: "string \<Rightarrow> int option" where
  "unitMap u =
     (if u = ''ns'' then Some 1
      else if u = ''us'' then Some 1000
      else if u = [CHR 0xC2, CHR 0xB5, CHR ''s''] then Some 1000
      else if u = [CHR 0xCE, CHR 0xBC, CHR ''s''] then Some 1000
      else if u = ''ms'' then Some 1000000
      else if u = ''s'' then Some 1000000000
      else if u = ''m'' then Some 60000000000
      else if u = ''h'' then Some 3600000000000
      else None)"

text \<open>\<^verbatim>\<open>leadingInt\<close> on a run of digits: \<open>None\<close> when the number passes \<open>2 ^ 63\<close>.\<close>

fun leadingInt :: "int \<Rightarrow> string \<Rightarrow> int option" where
  "leadingInt n [] = Some n"
| "leadingInt n (c # cs) =
     (if n > 2 ^ 63 div 10 then None
      else if n * 10 + (int (byte c) - 48) > 2 ^ 63 then None
      else leadingInt (n * 10 + (int (byte c) - 48)) cs)"

text \<open>
  \<^verbatim>\<open>leadingFraction\<close> on a run of digits: the digits read before the number would
  overflow, and the scale, a power of ten.
\<close>

fun leadingFraction :: "int \<Rightarrow> int \<Rightarrow> string \<Rightarrow> int \<times> int" where
  "leadingFraction n scale [] = (n, scale)"
| "leadingFraction n scale (c # cs) =
     (if n > (2 ^ 63 - 1) div 10 then (n, scale)
      else if n * 10 + (int (byte c) - 48) > 2 ^ 63 then (n, scale)
      else leadingFraction (n * 10 + (int (byte c) - 48)) (scale * 10) cs)"

definition unit_byte :: "char \<Rightarrow> bool" where
  "unit_byte c = (\<not> (c = CHR ''.'' \<or> isDigit c))"

text \<open>
  The loop of \<^verbatim>\<open>ParseDuration\<close> over the numbers with their units; \<open>d\<close> is the sum so
  far. \<open>None\<close> is any of its errors.
\<close>

function duration_loop :: "int \<Rightarrow> string \<Rightarrow> int option" where
  "duration_loop d s =
     (if s = [] then Some d
      else if \<not> (hd s = CHR ''.'' \<or> isDigit (hd s)) then None
      else
        case leadingInt 0 (takeWhile isDigit s) of
          None \<Rightarrow> None
        | Some v \<Rightarrow>
            (case (if dropWhile isDigit s \<noteq> [] \<and> hd (dropWhile isDigit s) = CHR ''.''
                   then (takeWhile isDigit (tl (dropWhile isDigit s)),
                         dropWhile isDigit (tl (dropWhile isDigit s)))
                   else ([], dropWhile isDigit s)) of
               (fs, s2) \<Rightarrow>
                 if takeWhile isDigit s = [] \<and> fs = [] then None
                 else if takeWhile unit_byte s2 = [] then None
                 else
                   (case unitMap (takeWhile unit_byte s2) of
                      None \<Rightarrow> None
                    | Some u \<Rightarrow>
                        if v > 2 ^ 63 div u then None
                        else
                          (case leadingFraction 0 1 fs of
                             (f, scale) \<Rightarrow>
                               if f > 0 \<and> v * u + f * u div scale > 2 ^ 63 then None
                               else if d + (v * u + (if f > 0 then f * u div scale else 0)) > 2 ^ 63
                               then None
                               else duration_loop
                                      (d + (v * u + (if f > 0 then f * u div scale else 0)))
                                      (dropWhile unit_byte s2)))))"
  by pat_completeness auto
termination
proof (relation "measure (\<lambda>(d, s). length s)")
  show "wf (measure (\<lambda>(d, s). length s))"
    by simp
next
  fix d :: int and s :: string and v :: int and fs s2 :: string and u f scale :: int
  assume fs: "(fs, s2) =
                (if dropWhile isDigit s \<noteq> [] \<and> hd (dropWhile isDigit s) = CHR ''.''
                 then (takeWhile isDigit (tl (dropWhile isDigit s)),
                       dropWhile isDigit (tl (dropWhile isDigit s)))
                 else ([], dropWhile isDigit s))"
    and unit: "takeWhile unit_byte s2 \<noteq> []"
  have s2: "length s2 \<le> length s"
  proof -
    have a: "length (dropWhile isDigit s) \<le> length s"
      by (rule length_dropWhile_le)
    have b: "length (dropWhile isDigit (tl (dropWhile isDigit s))) \<le> length (tl (dropWhile isDigit s))"
      by (rule length_dropWhile_le)
    have "s2 = dropWhile isDigit s \<or> s2 = dropWhile isDigit (tl (dropWhile isDigit s))"
      using fs by (auto split: if_splits)
    then show ?thesis
      using a b by auto
  qed
  have "length (dropWhile unit_byte s2) < length s2"
  proof -
    have "length (takeWhile unit_byte s2) + length (dropWhile unit_byte s2) = length s2"
      by (metis length_append takeWhile_dropWhile_id)
    moreover have "0 < length (takeWhile unit_byte s2)"
      using unit by simp
    ultimately show ?thesis
      by arith
  qed
  then show "((d + (v * u + (if f > 0 then f * u div scale else 0)), dropWhile unit_byte s2), (d, s))
               \<in> measure (\<lambda>(d, s). length s)"
    using s2 by simp
qed

definition ParseDuration :: "string \<Rightarrow> int \<times> error option" where
  "ParseDuration orig =
     (let neg = (orig \<noteq> [] \<and> hd orig = CHR ''-'');
          s = (if orig \<noteq> [] \<and> (hd orig = CHR ''-'' \<or> hd orig = CHR ''+'') then tl orig else orig)
      in if s = ''0'' then (0, None)
         else if s = [] then (0, Some (errDuration orig))
         else
           case duration_loop 0 s of
             None \<Rightarrow> (0, Some (errDuration orig))
           | Some d \<Rightarrow>
               if neg then (- d, None)
               else if d > 2 ^ 63 - 1 then (0, Some (errDuration orig))
               else (d, None))"

text \<open>
  The values used in the examples: the duration parser above; a structured decoder that
  reports an error for every text; byte-wise upper-casing where a string has a byte outside
  ASCII. No example reaches the decoder or has such a string.
\<close>

definition std_ext :: ext where
  "std_ext = \<lparr>time_ParseDuration = ParseDuration,
              yaml_Unmarshal = (\<lambda>text t. None),
              unicode_ToUpper = map upper_byte\<rparr>"

section \<open>Properties\<close>

subsection \<open>The tag map and the order of its entries\<close>

lemma convert_Nil: "convert x t [] decode = (Invalid, None)"
  by (simp add: convert_def)

lemma distinct_foldl_update:
  "distinct (map fst m) \<Longrightarrow> distinct (map fst (foldl (\<lambda>m p. AList.update (f p) (g p) m) m ps))"
  by (induction ps arbitrary: m) (simp_all add: distinct_update)

lemma distinct_tagParamsMap: "distinct (map fst (tagParamsMap tag))"
  unfolding tagParamsMap_def by (rule distinct_foldl_update) simp

lemma tagParamsMap_Nil: "tagParamsMap [] = [([], [])]"
  by (simp add: tagParamsMap_def Split_def tagParam_key_def tagParam_value_def)

lemma distinct_map_insort_key:
  "distinct (map f (insort_key k a xs)) \<longleftrightarrow> f a \<notin> f ` set xs \<and> distinct (map f xs)"
  by (induction xs) (auto simp: set_insort_key)

lemma distinct_map_sort_key: "distinct (map f (sort_key k xs)) \<longleftrightarrow> distinct (map f xs)"
  by (induction xs) (simp_all add: distinct_map_insort_key)

lemma set_range_order: "set (range_order rank m) = set m"
  by (simp add: range_order_def)

lemma distinct_range_order: "distinct (map fst (range_order rank m)) \<longleftrightarrow> distinct (map fst m)"
  by (simp add: range_order_def distinct_map_sort_key)

lemma convert_options_Inr:
  "convert_options x t d els = Inr vals \<Longrightarrow> vals = map (\<lambda>el. fst (convert x t el d)) els"
  by (induction els arbitrary: vals) (auto split: prod.splits option.splits sum.splits)

lemma convert_options_Inl:
  "convert_options x t d els = Inl err \<Longrightarrow> \<exists>el \<in> set els. snd (convert x t el d) = Some err"
  by (induction els) (auto split: prod.splits option.splits sum.splits)

subsection \<open>One entry of the tag map\<close>

lemmas Set_defs = SetKey_def SetRequired_def SetDecode_def SetDefault_def SetOptions_def
  SetName_def SetType_def SetValue_def

lemma process_tag_Type: "Type (fst (process_tag x v key val)) = Type v"
  by (simp add: process_tag_def Set_defs split: prod.splits option.splits sum.splits)

lemma process_tag_Value: "Value (fst (process_tag x v key val)) = Value v"
  by (simp add: process_tag_def Set_defs split: prod.splits option.splits sum.splits)

lemma process_tag_Decode:
  "key \<noteq> ''decode'' \<Longrightarrow> Decode (fst (process_tag x v key val)) = Decode v"
  by (simp add: process_tag_def Set_defs split: prod.splits option.splits sum.splits)

lemma process_tag_Key:
  "Key (fst (process_tag x v key val)) = (if key = ''key'' then ToUpper x val else Key v)"
  by (simp add: process_tag_def Set_defs split: prod.splits option.splits sum.splits)

lemma process_tag_Required:
  "Required (fst (process_tag x v key val)) \<longleftrightarrow> key = ''required'' \<or> Required v"
  by (simp add: process_tag_def Set_defs split: prod.splits option.splits sum.splits)

lemma process_tag_Default:
  "Default (fst (process_tag x v key val)) =
     (if key = ''default'' \<and> snd (process_tag x v key val) = None
      then fst (convert x (Type v) val (Decode v)) else Default v)"
  by (simp add: process_tag_def Set_defs split: prod.splits option.splits sum.splits)

lemma process_tag_Options:
  "Options (fst (process_tag x v key val)) =
     (if key = ''options'' \<and> snd (process_tag x v key val) = None
      then map (\<lambda>el. fst (convert x (Type v) el (Decode v))) (Split val CHR '','')
      else Options v)"
  by (auto simp: process_tag_def Set_defs dest: convert_options_Inr
           split: prod.splits option.splits sum.splits)

lemma process_tag_error:
  "snd (process_tag x v key val) = Some err \<Longrightarrow>
   (key = ''default'' \<and> snd (convert x (Type v) val (Decode v)) = Some err) \<or>
   (key = ''options'' \<and>
      (\<exists>el \<in> set (Split val CHR '',''). snd (convert x (Type v) el (Decode v)) = Some err))"
  by (auto simp: process_tag_def Set_defs dest: convert_options_Inl
           split: prod.splits option.splits sum.splits if_splits)

subsection \<open>The loop over the entries\<close>

lemma process_tags_inv:
  assumes "P v"
    and "\<And>v key val. (key, val) \<in> set kvs \<Longrightarrow> P v \<Longrightarrow> P (fst (process_tag x v key val))"
  shows "P (fst (process_tags x v kvs))"
  using assms
proof (induction kvs arbitrary: v)
  case Nil
  then show ?case by simp
next
  case (Cons kv rest)
  obtain key val where kv: "kv = (key, val)"
    by (cases kv)
  obtain v' e where step: "process_tag x v key val = (v', e)"
    by (cases "process_tag x v key val")
  have v': "P v'"
    using Cons.prems(2) [of key val v] Cons.prems(1) kv step by simp
  show ?case
  proof (cases e)
    case None
    have "P (fst (process_tags x v' rest))"
      using v' Cons.prems(2) by (intro Cons.IH) simp_all
    then show ?thesis
      using kv step None by simp
  next
    case (Some err)
    then show ?thesis
      using kv step v' by simp
  qed
qed

lemma process_tags_error_source:
  assumes "P v"
    and "\<And>v key val. (key, val) \<in> set kvs \<Longrightarrow> P v \<Longrightarrow> P (fst (process_tag x v key val))"
    and "snd (process_tags x v kvs) = Some err"
  shows "\<exists>v' key val. P v' \<and> (key, val) \<in> set kvs \<and> snd (process_tag x v' key val) = Some err"
  using assms
proof (induction kvs arbitrary: v)
  case Nil
  then show ?case by simp
next
  case (Cons kv rest)
  obtain key val where kv: "kv = (key, val)"
    by (cases kv)
  obtain v' e where step: "process_tag x v key val = (v', e)"
    by (cases "process_tag x v key val")
  show ?case
  proof (cases e)
    case None
    have v': "P v'"
      using Cons.prems(2) [of key val v] Cons.prems(1) kv step by simp
    have "snd (process_tags x v' rest) = Some err"
      using Cons.prems(3) kv step None by simp
    then have "\<exists>w key val. P w \<and> (key, val) \<in> set rest \<and> snd (process_tag x w key val) = Some err"
      using v' Cons.prems(2) by (intro Cons.IH) simp_all
    then show ?thesis
      by auto
  next
    case (Some e')
    then have "snd (process_tag x v key val) = Some err"
      using Cons.prems(3) kv step by simp
    then show ?thesis
      using Cons.prems(1) kv by auto
  qed
qed

lemma process_tags_visits:
  assumes "snd (process_tags x v kvs) = None"
    and "(key, val) \<in> set kvs"
    and "distinct (map fst kvs)"
    and "P v"
    and "\<And>v key val. (key, val) \<in> set kvs \<Longrightarrow> P v \<Longrightarrow> P (fst (process_tag x v key val))"
  shows "\<exists>w rest. P w \<and> snd (process_tag x w key val) = None \<and> set rest \<subseteq> set kvs \<and>
           key \<notin> fst ` set rest \<and>
           process_tags x v kvs = process_tags x (fst (process_tag x w key val)) rest"
  using assms
proof (induction kvs arbitrary: v)
  case Nil
  then show ?case by simp
next
  case (Cons kv rest)
  obtain k a where kv: "kv = (k, a)"
    by (cases kv)
  obtain v' e where step: "process_tag x v k a = (v', e)"
    by (cases "process_tag x v k a")
  have e: "e = None"
    using Cons.prems(1) kv step by (cases e) simp_all
  have run: "process_tags x v (kv # rest) = process_tags x v' rest"
    using kv step e by simp
  show ?case
  proof (cases "(key, val) = (k, a)")
    case True
    have "key \<notin> fst ` set rest"
      using Cons.prems(3) kv True by auto
    moreover have "snd (process_tag x v key val) = None"
      using True step e by simp
    moreover have "process_tags x v (kv # rest) = process_tags x (fst (process_tag x v key val)) rest"
      using run True step by simp
    ultimately show ?thesis
      using Cons.prems(4) by (intro exI [of _ v] exI [of _ rest]) auto
  next
    case False
    then have mem: "(key, val) \<in> set rest"
      using Cons.prems(2) kv by auto
    have v': "P v'"
      using Cons.prems(5) [of k a v] Cons.prems(4) kv step by simp
    have "snd (process_tags x v' rest) = None"
      using Cons.prems(1) run by simp
    then have "\<exists>w rest'. P w \<and> snd (process_tag x w key val) = None \<and> set rest' \<subseteq> set rest \<and>
           key \<notin> fst ` set rest' \<and>
           process_tags x v' rest = process_tags x (fst (process_tag x w key val)) rest'"
      using mem Cons.prems(3) v' Cons.prems(5) by (intro Cons.IH) simp_all
    then obtain w rest' where w: "P w" "snd (process_tag x w key val) = None"
      "set rest' \<subseteq> set rest" "key \<notin> fst ` set rest'"
      "process_tags x v' rest = process_tags x (fst (process_tag x w key val)) rest'"
      by blast
    show ?thesis
      using w run by (intro exI [of _ w] exI [of _ rest']) auto
  qed
qed

subsection \<open>Parse as a run of the loop\<close>

lemma set_delete_decode:
  "set (AList.delete k m) = {p \<in> set m. fst p \<noteq> k}"
  by (auto simp: AList.delete_eq)

lemma Parse_shape:
  obtains v1 kvs where
    "Parse x rank v0 field = process_tags x v1 kvs"
    "Type v1 = field_Type field"
    "Key v1 = ToUpper x (field_Name field)"
    "Decode v1 = (case map_of (tagParamsMap (field_Tag field)) ''decode'' of
                    Some d \<Rightarrow> d | None \<Rightarrow> Decode v0)"
    "Value v1 = Value v0" "Required v1 = Required v0"
    "Default v1 = Default v0" "Options v1 = Options v0"
    "distinct (map fst kvs)"
    "''decode'' \<notin> fst ` set kvs"
    "\<And>k val. k \<noteq> ''decode'' \<Longrightarrow> k \<noteq> [] \<Longrightarrow>
       (k, val) \<in> set kvs \<longleftrightarrow> map_of (tagParamsMap (field_Tag field)) k = Some val"
proof (cases "field_Tag field = []")
  case True
  let ?v1 = "v0\<lparr>Name := field_Name field, Type := field_Type field,
               Key := ToUpper x (field_Name field)\<rparr>"
  have "Parse x rank v0 field = process_tags x ?v1 []"
    using True by (simp add: Parse_def Set_defs)
  moreover have "map_of (tagParamsMap (field_Tag field)) ''decode'' = None"
    using True by (simp add: tagParamsMap_Nil)
  moreover have "\<And>k val. k \<noteq> [] \<Longrightarrow>
       (k, val) \<in> set [] \<longleftrightarrow> map_of (tagParamsMap (field_Tag field)) k = Some val"
    using True by (simp add: tagParamsMap_Nil)
  ultimately show ?thesis
    by (intro that [of ?v1 "[]"]) simp_all
next
  case False
  let ?m = "tagParamsMap (field_Tag field)"
  let ?v1 = "v0\<lparr>Name := field_Name field, Type := field_Type field,
               Key := ToUpper x (field_Name field),
               Decode := (case map_of ?m ''decode'' of Some d \<Rightarrow> d | None \<Rightarrow> Decode v0)\<rparr>"
  let ?kvs = "range_order rank (AList.delete ''decode'' ?m)"
  have dm: "distinct (map fst ?m)"
    by (rule distinct_tagParamsMap)
  have run: "Parse x rank v0 field = process_tags x ?v1 ?kvs"
  proof (cases "map_of ?m ''decode''")
    case None
    then have "AList.delete ''decode'' ?m = ?m"
      by (simp add: AList.delete_id map_of_eq_None_iff)
    then show ?thesis
      using False None by (simp add: Parse_def Set_defs)
  next
    case (Some d)
    then show ?thesis
      using False by (simp add: Parse_def Set_defs)
  qed
  have d: "distinct (map fst ?kvs)"
    using dm by (simp add: distinct_range_order distinct_delete)
  have nd: "''decode'' \<notin> fst ` set ?kvs"
    by (auto simp: set_range_order set_delete_decode)
  have mem: "\<And>k val. k \<noteq> ''decode'' \<Longrightarrow> (k, val) \<in> set ?kvs \<longleftrightarrow> map_of ?m k = Some val"
    using dm by (auto simp: set_range_order set_delete_decode)
  show ?thesis
    using run d nd mem by (intro that [of ?v1 ?kvs]) simp_all
qed

lemma Parse_Value: "Value (fst (Parse x rank v0 field)) = Value v0"
proof -
  obtain v1 kvs where s: "Parse x rank v0 field = process_tags x v1 kvs" "Value v1 = Value v0"
    by (rule Parse_shape [of x rank v0 field]) blast
  have "Value (fst (process_tags x v1 kvs)) = Value v0"
    by (rule process_tags_inv [where P = "\<lambda>v. Value v = Value v0"])
       (simp_all add: s process_tag_Value)
  then show ?thesis
    using s by simp
qed

lemma Parse_Type: "Type (fst (Parse x rank v0 field)) = field_Type field"
proof -
  obtain v1 kvs where s: "Parse x rank v0 field = process_tags x v1 kvs"
    "Type v1 = field_Type field"
    by (rule Parse_shape [of x rank v0 field]) blast
  have "Type (fst (process_tags x v1 kvs)) = field_Type field"
    by (rule process_tags_inv [where P = "\<lambda>v. Type v = field_Type field"])
       (simp_all add: s process_tag_Type)
  then show ?thesis
    using s by simp
qed

subsection \<open>convert\<close>

text \<open>
  C5. For every target type and every decode strategy token, recognised or not,
  \<open>convert\<close> of the empty string returns the zero Value, the result that stands for
  \<^emph>\<open>no value\<close>, and no error.
\<close>

theorem convert_empty_is_no_value: "convert x t [] decode = (Invalid, None)"
  by (simp add: convert_def)

text \<open>
  C1. A duration field with the malformed \<^verbatim>\<open>abc\<close>. A type converter is defined for
  the type, and it returns the error of the duration parser; under the strategy
  \<^verbatim>\<open>type\<close> that error is what \<open>convert\<close> returns. With no strategy
  \<open>convert\<close> takes any error of the type converter for the absence of one, runs the
  kind converter and returns its error, \<^emph>\<open>unsupported int64\<close>: the parser's error
  does not reach the caller.
\<close>

theorem malformed_duration_error_is_replaced:
  "convertWithType std_ext time_Duration ''abc'' =
     (Val time_Duration (Int_data 0), Some (errDuration ''abc'')) \<and>
   convert std_ext time_Duration ''abc'' ''type'' =
     (Val time_Duration (Int_data 0), Some (errDuration ''abc'')) \<and>
   convert std_ext time_Duration ''abc'' [] =
     (Invalid, Some (errConversion ''abc'' ''unsupported int64''))"
  by code_simp

subsection \<open>The lookup key\<close>

text \<open>
  C3, as the code has it. When the tag has a \<^verbatim>\<open>key\<close> directive (the last one, if
  there are several) and \<open>Parse\<close> returns no error, the lookup key is the value of
  the directive in upper case, whatever the order of the map.
\<close>

theorem key_directive_is_upper_cased:
  assumes "map_of (tagParamsMap (field_Tag field)) ''key'' = Some val"
    and "Parse x rank v0 field = (v, None)"
  shows "Key v = ToUpper x val"
proof -
  obtain v1 kvs where s: "Parse x rank v0 field = process_tags x v1 kvs"
    "distinct (map fst kvs)"
    "\<And>k val. k \<noteq> ''decode'' \<Longrightarrow> k \<noteq> [] \<Longrightarrow>
       (k, val) \<in> set kvs \<longleftrightarrow> map_of (tagParamsMap (field_Tag field)) k = Some val"
    by (rule Parse_shape [of x rank v0 field]) blast
  have mem: "(''key'', val) \<in> set kvs"
    using s(3) [of "''key''" val] assms(1) by simp
  have pt: "process_tags x v1 kvs = (v, None)"
    using s(1) assms(2) by simp
  have ok: "snd (process_tags x v1 kvs) = None"
    by (simp add: pt)
  obtain w rest where r: "''key'' \<notin> fst ` set rest"
    "process_tags x v1 kvs = process_tags x (fst (process_tag x w ''key'' val)) rest"
    using process_tags_visits [OF ok mem s(2), where P = "\<lambda>v. True"] by auto
  have "Key (fst (process_tags x v1 kvs)) = ToUpper x val"
    unfolding r(2)
  proof (rule process_tags_inv [where P = "\<lambda>v. Key v = ToUpper x val"])
    show "Key (fst (process_tag x w ''key'' val)) = ToUpper x val"
      by (simp add: process_tag_Key)
  next
    fix u :: Var and k a :: string
    assume ka: "(k, a) \<in> set rest" and u: "Key u = ToUpper x val"
    have "k \<noteq> ''key''"
      using ka r(1) by force
    then show "Key (fst (process_tag x u k a)) = ToUpper x val"
      using u by (simp add: process_tag_Key)
  qed
  then show ?thesis
    by (simp add: pt)
qed

text \<open>
  The tag \<^verbatim>\<open>key=db_host\<close>: the lookup key is \<^verbatim>\<open>DB_HOST\<close>, not the value as
  written.
\<close>

theorem key_directive_counterexample:
  "map_of (tagParamsMap ''key=db_host'') ''key'' = Some ''db_host'' \<and>
   Key (fst (Parse std_ext (\<lambda>k. 0) new_Var
          \<lparr>field_Name = ''Host'', field_Type = string_type, field_Tag = ''key=db_host''\<rparr>))
     = ''DB_HOST''"
  by code_simp

text \<open>
  The tag \<^verbatim>\<open>required key=port\<close> on an integer field.
\<close>

theorem key_directive_witness:
  "map_of (tagParamsMap ''required key=port'') ''key'' = Some ''port'' \<and>
   Parse std_ext (\<lambda>k. 0) new_Var
     \<lparr>field_Name = ''P'', field_Type = int_type, field_Tag = ''required key=port''\<rparr> =
     (\<lparr>Name = ''P'', Key = ''PORT'', Type = int_type, Value = Invalid, Required = True,
        Decode = [], Default = Invalid, Options = []\<rparr>, None) \<and>
   ToUpper std_ext ''port'' = ''PORT''"
proof -
  let ?f = "\<lparr>field_Name = ''P'', field_Type = int_type, field_Tag = ''required key=port''\<rparr>"
  let ?v = "\<lparr>Name = ''P'', Key = ''PORT'', Type = int_type, Value = Invalid, Required = True,
        Decode = [], Default = Invalid, Options = []\<rparr>"
  have m: "map_of (tagParamsMap (field_Tag ?f)) ''key'' = Some ''port''"
    by code_simp
  have p: "Parse std_ext (\<lambda>k. 0) new_Var ?f = (?v, None)"
    by code_simp
  have "Key ?v = ToUpper std_ext ''port''"
    by (rule key_directive_is_upper_cased [OF m p])
  then show ?thesis
    using m p by simp
qed

subsection \<open>Upper case\<close>



















subsection \<open>The decode strategy of default and options\<close>

lemma convert_options_ok:
  "convert_options x t d els = Inr vals \<Longrightarrow> \<forall>el \<in> set els. snd (convert x t el d) = None"
  by (induction els arbitrary: vals) (auto split: prod.splits option.splits sum.splits)

lemma process_tag_default_ok:
  "snd (process_tag x v ''default'' val) = None \<Longrightarrow>
   snd (convert x (Type v) val (Decode v)) = None"
  by (simp add: process_tag_def split: prod.splits option.splits)

lemma process_tag_options_ok:
  "snd (process_tag x v ''options'' val) = None \<Longrightarrow>
   \<forall>el \<in> set (Split val CHR '',''). snd (convert x (Type v) el (Decode v)) = None"
  by (auto simp: process_tag_def dest: convert_options_ok split: sum.splits)

lemma process_tags_Default_unchanged:
  assumes "''default'' \<notin> fst ` set kvs"
  shows "Default (fst (process_tags x v kvs)) = Default v"
proof (rule process_tags_inv [where P = "\<lambda>u. Default u = Default v"])
  show "Default v = Default v"
    by simp
next
  fix u :: Var and k a :: string
  assume ka: "(k, a) \<in> set kvs" and u: "Default u = Default v"
  have "k \<noteq> ''default''"
    using ka assms by force
  then show "Default (fst (process_tag x u k a)) = Default v"
    using u by (simp add: process_tag_Default)
qed

lemma process_tags_Options_unchanged:
  assumes "''options'' \<notin> fst ` set kvs"
  shows "Options (fst (process_tags x v kvs)) = Options v"
proof (rule process_tags_inv [where P = "\<lambda>u. Options u = Options v"])
  show "Options v = Options v"
    by simp
next
  fix u :: Var and k a :: string
  assume ka: "(k, a) \<in> set kvs" and u: "Options u = Options v"
  have "k \<noteq> ''options''"
    using ka assms by force
  then show "Options (fst (process_tag x u k a)) = Options v"
    using u by (simp add: process_tag_Options)
qed

text \<open>
  In a loop over entries with no \<^verbatim>\<open>decode\<close> key, the strategy and the type stay what
  they are at the start: every entry is processed under them.
\<close>

lemma process_tag_keeps:
  assumes "key \<noteq> ''decode''" and "Decode v = d \<and> Type v = t"
  shows "Decode (fst (process_tag x v key val)) = d \<and> Type (fst (process_tag x v key val)) = t"
  using assms by (simp add: process_tag_Decode process_tag_Type)

lemma process_tags_default:
  assumes ok: "snd (process_tags x v kvs) = None"
    and mem: "(''default'', val) \<in> set kvs"
    and dist: "distinct (map fst kvs)"
    and nd: "''decode'' \<notin> fst ` set kvs"
  shows "convert x (Type v) val (Decode v) = (Default (fst (process_tags x v kvs)), None)"
proof -
  let ?P = "\<lambda>u. Decode u = Decode v \<and> Type u = Type v"
  have step: "\<And>u k a. (k, a) \<in> set kvs \<Longrightarrow> ?P u \<Longrightarrow> ?P (fst (process_tag x u k a))"
  proof -
    fix u :: Var and k a :: string
    assume ka: "(k, a) \<in> set kvs" and u: "?P u"
    have "k \<noteq> ''decode''"
      using ka nd by force
    then show "?P (fst (process_tag x u k a))"
      using u by (rule process_tag_keeps)
  qed
  have "\<exists>w rest. ?P w \<and> snd (process_tag x w ''default'' val) = None \<and> set rest \<subseteq> set kvs \<and>
           ''default'' \<notin> fst ` set rest \<and>
           process_tags x v kvs = process_tags x (fst (process_tag x w ''default'' val)) rest"
    using ok mem dist by (rule process_tags_visits [where P = ?P]) (simp, rule step)
  then obtain w rest where w: "Decode w = Decode v" "Type w = Type v"
    "snd (process_tag x w ''default'' val) = None" "''default'' \<notin> fst ` set rest"
    "process_tags x v kvs = process_tags x (fst (process_tag x w ''default'' val)) rest"
    by blast
  have "Default (fst (process_tags x v kvs)) = Default (fst (process_tag x w ''default'' val))"
    unfolding w(5) using w(4) by (rule process_tags_Default_unchanged)
  also have "\<dots> = fst (convert x (Type v) val (Decode v))"
    using w(1,2,3) by (simp add: process_tag_Default)
  finally have "fst (convert x (Type v) val (Decode v)) = Default (fst (process_tags x v kvs))"
    by simp
  moreover have "snd (convert x (Type v) val (Decode v)) = None"
    using process_tag_default_ok [OF w(3)] w(1,2) by simp
  ultimately show ?thesis
    by (simp add: prod_eq_iff)
qed

lemma process_tags_options:
  assumes ok: "snd (process_tags x v kvs) = None"
    and mem: "(''options'', val) \<in> set kvs"
    and dist: "distinct (map fst kvs)"
    and nd: "''decode'' \<notin> fst ` set kvs"
  shows "Options (fst (process_tags x v kvs)) =
           map (\<lambda>el. fst (convert x (Type v) el (Decode v))) (Split val CHR '','') \<and>
         (\<forall>el \<in> set (Split val CHR '',''). snd (convert x (Type v) el (Decode v)) = None)"
proof -
  let ?P = "\<lambda>u. Decode u = Decode v \<and> Type u = Type v"
  have step: "\<And>u k a. (k, a) \<in> set kvs \<Longrightarrow> ?P u \<Longrightarrow> ?P (fst (process_tag x u k a))"
  proof -
    fix u :: Var and k a :: string
    assume ka: "(k, a) \<in> set kvs" and u: "?P u"
    have "k \<noteq> ''decode''"
      using ka nd by force
    then show "?P (fst (process_tag x u k a))"
      using u by (rule process_tag_keeps)
  qed
  have "\<exists>w rest. ?P w \<and> snd (process_tag x w ''options'' val) = None \<and> set rest \<subseteq> set kvs \<and>
           ''options'' \<notin> fst ` set rest \<and>
           process_tags x v kvs = process_tags x (fst (process_tag x w ''options'' val)) rest"
    using ok mem dist by (rule process_tags_visits [where P = ?P]) (simp, rule step)
  then obtain w rest where w: "Decode w = Decode v" "Type w = Type v"
    "snd (process_tag x w ''options'' val) = None" "''options'' \<notin> fst ` set rest"
    "process_tags x v kvs = process_tags x (fst (process_tag x w ''options'' val)) rest"
    by blast
  have "Options (fst (process_tags x v kvs)) = Options (fst (process_tag x w ''options'' val))"
    unfolding w(5) using w(4) by (rule process_tags_Options_unchanged)
  also have "\<dots> = map (\<lambda>el. fst (convert x (Type v) el (Decode v))) (Split val CHR '','')"
    using w(1,2,3) by (simp add: process_tag_Options)
  finally have "Options (fst (process_tags x v kvs)) =
      map (\<lambda>el. fst (convert x (Type v) el (Decode v))) (Split val CHR '','')" .
  moreover have "\<forall>el \<in> set (Split val CHR '',''). snd (convert x (Type v) el (Decode v)) = None"
    using process_tag_options_ok [OF w(3)] w(1,2) by simp
  ultimately show ?thesis
    by simp
qed

lemma process_tags_error:
  assumes err: "snd (process_tags x v kvs) = Some err"
    and nd: "''decode'' \<notin> fst ` set kvs"
  shows "(\<exists>val. (''default'', val) \<in> set kvs \<and>
            snd (convert x (Type v) val (Decode v)) = Some err) \<or>
         (\<exists>val el. (''options'', val) \<in> set kvs \<and> el \<in> set (Split val CHR '','') \<and>
            snd (convert x (Type v) el (Decode v)) = Some err)"
proof -
  let ?P = "\<lambda>u. Decode u = Decode v \<and> Type u = Type v"
  have step: "\<And>u k a. (k, a) \<in> set kvs \<Longrightarrow> ?P u \<Longrightarrow> ?P (fst (process_tag x u k a))"
  proof -
    fix u :: Var and k a :: string
    assume ka: "(k, a) \<in> set kvs" and u: "?P u"
    have "k \<noteq> ''decode''"
      using ka nd by force
    then show "?P (fst (process_tag x u k a))"
      using u by (rule process_tag_keeps)
  qed
  have "?P v"
    by simp
  then have "\<exists>w key val. ?P w \<and> (key, val) \<in> set kvs \<and> snd (process_tag x w key val) = Some err"
    using step err by (rule process_tags_error_source [where P = ?P])
  then obtain w key val where w: "Decode w = Decode v" "Type w = Type v"
    "(key, val) \<in> set kvs" "snd (process_tag x w key val) = Some err"
    by blast
  show ?thesis
    using process_tag_error [OF w(4)] w(1,2,3) by auto
qed

lemma process_tags_partial:
  assumes nd: "''decode'' \<notin> fst ` set kvs"
  shows "(Default (fst (process_tags x v kvs)) = Default v \<or>
          (\<exists>val. (''default'', val) \<in> set kvs \<and>
             Default (fst (process_tags x v kvs)) = fst (convert x (Type v) val (Decode v)))) \<and>
         (Options (fst (process_tags x v kvs)) = Options v \<or>
          (\<exists>val. (''options'', val) \<in> set kvs \<and>
             Options (fst (process_tags x v kvs)) =
               map (\<lambda>el. fst (convert x (Type v) el (Decode v))) (Split val CHR '','')))"
proof -
  let ?P = "\<lambda>u. (Decode u = Decode v \<and> Type u = Type v) \<and>
    (Default u = Default v \<or>
       (\<exists>val. (''default'', val) \<in> set kvs \<and>
          Default u = fst (convert x (Type v) val (Decode v)))) \<and>
    (Options u = Options v \<or>
       (\<exists>val. (''options'', val) \<in> set kvs \<and>
          Options u = map (\<lambda>el. fst (convert x (Type v) el (Decode v))) (Split val CHR '','')))"
  have "?P (fst (process_tags x v kvs))"
  proof (rule process_tags_inv [where P = ?P])
    show "?P v"
      by simp
  next
    fix u :: Var and k a :: string
    assume ka: "(k, a) \<in> set kvs" and u: "?P u"
    have k: "k \<noteq> ''decode''"
      using ka nd by force
    have keep: "Decode (fst (process_tag x u k a)) = Decode v \<and>
                Type (fst (process_tag x u k a)) = Type v"
      using k u by (intro process_tag_keeps) simp_all
    have d: "Default (fst (process_tag x u k a)) = Default v \<or>
       (\<exists>val. (''default'', val) \<in> set kvs \<and>
          Default (fst (process_tag x u k a)) = fst (convert x (Type v) val (Decode v)))"
    proof (cases "k = ''default'' \<and> snd (process_tag x u k a) = None")
      case True
      then have k': "k = ''default''" and ok: "snd (process_tag x u ''default'' a) = None"
        by blast+
      have "Default (fst (process_tag x u ''default'' a)) = fst (convert x (Type u) a (Decode u))"
        by (simp add: process_tag_Default ok)
      then have "Default (fst (process_tag x u k a)) = fst (convert x (Type v) a (Decode v))"
        using u k' by simp
      then show ?thesis
        using k' ka by auto
    next
      case False
      then have "Default (fst (process_tag x u k a)) = Default u"
        by (auto simp: process_tag_Default)
      then show ?thesis
        using u by simp
    qed
    have o: "Options (fst (process_tag x u k a)) = Options v \<or>
       (\<exists>val. (''options'', val) \<in> set kvs \<and>
          Options (fst (process_tag x u k a)) =
            map (\<lambda>el. fst (convert x (Type v) el (Decode v))) (Split val CHR '',''))"
    proof (cases "k = ''options'' \<and> snd (process_tag x u k a) = None")
      case True
      then have k': "k = ''options''" and ok: "snd (process_tag x u ''options'' a) = None"
        by blast+
      have "Options (fst (process_tag x u ''options'' a)) =
          map (\<lambda>el. fst (convert x (Type u) el (Decode u))) (Split a CHR '','')"
        by (simp add: process_tag_Options ok)
      then have "Options (fst (process_tag x u k a)) =
          map (\<lambda>el. fst (convert x (Type v) el (Decode v))) (Split a CHR '','')"
        using u k' by simp
      then show ?thesis
        using k' ka by auto
    next
      case False
      then have "Options (fst (process_tag x u k a)) = Options u"
        by (auto simp: process_tag_Options)
      then show ?thesis
        using u by simp
    qed
    show "?P (fst (process_tag x u k a))"
      using keep d o by blast
  qed
  then show ?thesis
    by blast
qed

text \<open>
  C4. When the tag has a \<^verbatim>\<open>decode\<close> directive with the value \<open>d\<close>, then for every
  order of the tokens in the tag and every order in which the loop visits the map, the
  descriptor has the strategy \<open>d\<close>, and every conversion of a \<^verbatim>\<open>default\<close> value or of
  an element of \<^verbatim>\<open>options\<close> is a conversion under \<open>d\<close>:
  \<^item> when \<open>Parse\<close> reports no error, the default is the value \<open>convert\<close> returns for the
    directive's value under \<open>d\<close>, and the options are the values \<open>convert\<close> returns for
    the elements under \<open>d\<close>, all without error;
  \<^item> when \<open>Parse\<close> reports an error, it is the error of \<open>convert\<close> under \<open>d\<close> for the
    default value or for an element of the options;
  \<^item> in both cases a default or an options list that differs from the one at the start was
    converted under \<open>d\<close>.
\<close>

theorem decode_is_applied_first:
  assumes "map_of (tagParamsMap (field_Tag field)) ''decode'' = Some d"
    and "Parse x rank v0 field = (v, e)"
  shows "Decode v = d \<and>
    (\<forall>val. e = None \<and> map_of (tagParamsMap (field_Tag field)) ''default'' = Some val \<longrightarrow>
       convert x (field_Type field) val d = (Default v, None)) \<and>
    (\<forall>val. e = None \<and> map_of (tagParamsMap (field_Tag field)) ''options'' = Some val \<longrightarrow>
       Options v = map (\<lambda>el. fst (convert x (field_Type field) el d)) (Split val CHR '','') \<and>
       (\<forall>el \<in> set (Split val CHR '',''). snd (convert x (field_Type field) el d) = None)) \<and>
    (\<forall>err. e = Some err \<longrightarrow>
       (\<exists>val. map_of (tagParamsMap (field_Tag field)) ''default'' = Some val \<and>
          snd (convert x (field_Type field) val d) = Some err) \<or>
       (\<exists>val el. map_of (tagParamsMap (field_Tag field)) ''options'' = Some val \<and>
          el \<in> set (Split val CHR '','') \<and>
          snd (convert x (field_Type field) el d) = Some err)) \<and>
    (Default v = Default v0 \<or>
       (\<exists>val. map_of (tagParamsMap (field_Tag field)) ''default'' = Some val \<and>
          Default v = fst (convert x (field_Type field) val d))) \<and>
    (Options v = Options v0 \<or>
       (\<exists>val. map_of (tagParamsMap (field_Tag field)) ''options'' = Some val \<and>
          Options v = map (\<lambda>el. fst (convert x (field_Type field) el d)) (Split val CHR '','')))"
proof -
  obtain v1 kvs where s: "Parse x rank v0 field = process_tags x v1 kvs"
    "Type v1 = field_Type field"
    "Decode v1 = (case map_of (tagParamsMap (field_Tag field)) ''decode'' of
                    Some d \<Rightarrow> d | None \<Rightarrow> Decode v0)"
    "Default v1 = Default v0" "Options v1 = Options v0"
    "distinct (map fst kvs)"
    "''decode'' \<notin> fst ` set kvs"
    "\<And>k val. k \<noteq> ''decode'' \<Longrightarrow> k \<noteq> [] \<Longrightarrow>
       (k, val) \<in> set kvs \<longleftrightarrow> map_of (tagParamsMap (field_Tag field)) k = Some val"
    by (rule Parse_shape [of x rank v0 field]) blast
  have dec: "Decode v1 = d"
    using s(3) assms(1) by simp
  have pt: "process_tags x v1 kvs = (v, e)"
    using s(1) assms(2) by simp
  have v: "fst (process_tags x v1 kvs) = v" and e: "snd (process_tags x v1 kvs) = e"
    by (simp_all add: pt)
  have memd: "\<And>val. (''default'', val) \<in> set kvs \<longleftrightarrow>
      map_of (tagParamsMap (field_Tag field)) ''default'' = Some val"
    by (rule s(8)) simp_all
  have memo: "\<And>val. (''options'', val) \<in> set kvs \<longleftrightarrow>
      map_of (tagParamsMap (field_Tag field)) ''options'' = Some val"
    by (rule s(8)) simp_all
  have c1: "Decode v = d"
  proof -
    have "Decode (fst (process_tags x v1 kvs)) = d"
    proof (rule process_tags_inv [where P = "\<lambda>u. Decode u = d"])
      show "Decode v1 = d"
        by (rule dec)
    next
      fix u :: Var and k a :: string
      assume ka: "(k, a) \<in> set kvs" and u: "Decode u = d"
      have "k \<noteq> ''decode''"
        using ka s(7) by force
      then show "Decode (fst (process_tag x u k a)) = d"
        using u by (simp add: process_tag_Decode)
    qed
    then show ?thesis
      by (simp add: v)
  qed
  have c2: "\<forall>val. e = None \<and> map_of (tagParamsMap (field_Tag field)) ''default'' = Some val \<longrightarrow>
       convert x (field_Type field) val d = (Default v, None)"
  proof (intro allI impI)
    fix val
    assume a: "e = None \<and> map_of (tagParamsMap (field_Tag field)) ''default'' = Some val"
    have ok: "snd (process_tags x v1 kvs) = None"
      using a e by simp
    have mem: "(''default'', val) \<in> set kvs"
      using a memd by simp
    show "convert x (field_Type field) val d = (Default v, None)"
      using process_tags_default [OF ok mem s(6) s(7)] by (simp add: s(2) dec v)
  qed
  have c3: "\<forall>val. e = None \<and> map_of (tagParamsMap (field_Tag field)) ''options'' = Some val \<longrightarrow>
       Options v = map (\<lambda>el. fst (convert x (field_Type field) el d)) (Split val CHR '','') \<and>
       (\<forall>el \<in> set (Split val CHR '',''). snd (convert x (field_Type field) el d) = None)"
  proof (intro allI impI)
    fix val
    assume a: "e = None \<and> map_of (tagParamsMap (field_Tag field)) ''options'' = Some val"
    have ok: "snd (process_tags x v1 kvs) = None"
      using a e by simp
    have mem: "(''options'', val) \<in> set kvs"
      using a memo by simp
    show "Options v = map (\<lambda>el. fst (convert x (field_Type field) el d)) (Split val CHR '','') \<and>
       (\<forall>el \<in> set (Split val CHR '',''). snd (convert x (field_Type field) el d) = None)"
      using process_tags_options [OF ok mem s(6) s(7)] by (simp add: s(2) dec v)
  qed
  have c4: "\<forall>err. e = Some err \<longrightarrow>
       (\<exists>val. map_of (tagParamsMap (field_Tag field)) ''default'' = Some val \<and>
          snd (convert x (field_Type field) val d) = Some err) \<or>
       (\<exists>val el. map_of (tagParamsMap (field_Tag field)) ''options'' = Some val \<and>
          el \<in> set (Split val CHR '','') \<and>
          snd (convert x (field_Type field) el d) = Some err)"
  proof (intro allI impI)
    fix err
    assume "e = Some err"
    then have "snd (process_tags x v1 kvs) = Some err"
      using e by simp
    then show "(\<exists>val. map_of (tagParamsMap (field_Tag field)) ''default'' = Some val \<and>
          snd (convert x (field_Type field) val d) = Some err) \<or>
       (\<exists>val el. map_of (tagParamsMap (field_Tag field)) ''options'' = Some val \<and>
          el \<in> set (Split val CHR '','') \<and>
          snd (convert x (field_Type field) el d) = Some err)"
      using process_tags_error [OF _ s(7), of x v1 err] by (simp add: s(2) dec memd memo)
  qed
  have c5: "(Default v = Default v0 \<or>
       (\<exists>val. map_of (tagParamsMap (field_Tag field)) ''default'' = Some val \<and>
          Default v = fst (convert x (field_Type field) val d))) \<and>
    (Options v = Options v0 \<or>
       (\<exists>val. map_of (tagParamsMap (field_Tag field)) ''options'' = Some val \<and>
          Options v = map (\<lambda>el. fst (convert x (field_Type field) el d)) (Split val CHR '','')))"
    using process_tags_partial [OF s(7), of x v1] by (simp add: s(2) s(4) s(5) dec v memd memo)
  show ?thesis
    using c1 c2 c3 c4 c5 by blast
qed

text \<open>
  A duration field with the tag \<^verbatim>\<open>default=1h30m options=1h,1h30m decode=type\<close>, the
  \<^verbatim>\<open>decode\<close> token last: the default and the options are durations.
\<close>

theorem decode_is_applied_first_witness:
  "map_of (tagParamsMap ''default=1h30m options=1h,1h30m decode=type'') ''decode'' = Some ''type'' \<and>
   map_of (tagParamsMap ''default=1h30m options=1h,1h30m decode=type'') ''default'' = Some ''1h30m'' \<and>
   Parse std_ext (\<lambda>k. 0) new_Var
     \<lparr>field_Name = ''Timeout'', field_Type = time_Duration,
        field_Tag = ''default=1h30m options=1h,1h30m decode=type''\<rparr> =
     (\<lparr>Name = ''Timeout'', Key = ''TIMEOUT'', Type = time_Duration, Value = Invalid,
        Required = False, Decode = ''type'',
        Default = Val time_Duration (Int_data 5400000000000),
        Options = [Val time_Duration (Int_data 3600000000000),
                   Val time_Duration (Int_data 5400000000000)]\<rparr>, None) \<and>
   convert std_ext time_Duration ''1h30m'' ''type'' =
     (Val time_Duration (Int_data 5400000000000), None)"
proof -
  let ?f = "\<lparr>field_Name = ''Timeout'', field_Type = time_Duration,
        field_Tag = ''default=1h30m options=1h,1h30m decode=type''\<rparr>"
  let ?v = "\<lparr>Name = ''Timeout'', Key = ''TIMEOUT'', Type = time_Duration, Value = Invalid,
        Required = False, Decode = ''type'',
        Default = Val time_Duration (Int_data 5400000000000),
        Options = [Val time_Duration (Int_data 3600000000000),
                   Val time_Duration (Int_data 5400000000000)]\<rparr>"
  have m: "map_of (tagParamsMap (field_Tag ?f)) ''decode'' = Some ''type''"
    by code_simp
  have d: "map_of (tagParamsMap (field_Tag ?f)) ''default'' = Some ''1h30m''"
    by code_simp
  have p: "Parse std_ext (\<lambda>k. 0) new_Var ?f = (?v, None)"
    by code_simp
  have "convert std_ext (field_Type ?f) ''1h30m'' ''type'' = (Default ?v, None)"
    using decode_is_applied_first [OF m p] d by blast
  then show ?thesis
    using m d p by simp
qed

subsection \<open>The error of Parse in NewVarWithFunc\<close>

text \<open>
  C2. \<open>Parse\<close> returns the conversion error of a \<^verbatim>\<open>default\<close> value or of an element
  of \<^verbatim>\<open>options\<close>, and \<open>NewVarWithFunc\<close> does not read what \<open>Parse\<close> returns. An
  integer field with the tag \<^verbatim>\<open>default=abc\<close>: \<open>Parse\<close> returns the error for
  \<^verbatim>\<open>abc\<close>, and \<open>NewVarWithFunc\<close> returns no error, with the value of the lookup or,
  when the lookup has none, with the zero of the type. The same field with the tag
  \<^verbatim>\<open>options=80,http\<close>: \<open>Parse\<close> returns the error for \<^verbatim>\<open>http\<close>, the descriptor has
  no options, and \<open>NewVarWithFunc\<close> returns no error.
\<close>

theorem Parse_error_is_dropped:
  "Parse std_ext (\<lambda>k. 0) new_Var
     \<lparr>field_Name = ''Port'', field_Type = int_type, field_Tag = ''default=abc''\<rparr> =
     (\<lparr>Name = ''Port'', Key = ''PORT'', Type = int_type, Value = Invalid, Required = False,
        Decode = [], Default = Invalid, Options = []\<rparr>,
      Some (errConversion ''abc'' ''int'')) \<and>
   NewVarWithFunc std_ext (\<lambda>k. 0)
     \<lparr>field_Name = ''Port'', field_Type = int_type, field_Tag = ''default=abc''\<rparr>
     (\<lambda>k. if k = ''PORT'' then ''8080'' else []) =
     Return \<lparr>Name = ''Port'', Key = ''PORT'', Type = int_type,
              Value = Val int_type (Int_data 8080), Required = False,
              Decode = [], Default = Invalid, Options = []\<rparr> None \<and>
   NewVarWithFunc std_ext (\<lambda>k. 0)
     \<lparr>field_Name = ''Port'', field_Type = int_type, field_Tag = ''default=abc''\<rparr>
     (\<lambda>k. []) =
     Return \<lparr>Name = ''Port'', Key = ''PORT'', Type = int_type,
              Value = Val int_type (Int_data 0), Required = False,
              Decode = [], Default = Invalid, Options = []\<rparr> None \<and>
   Parse std_ext (\<lambda>k. 0) new_Var
     \<lparr>field_Name = ''Port'', field_Type = int_type, field_Tag = ''options=80,http''\<rparr> =
     (\<lparr>Name = ''Port'', Key = ''PORT'', Type = int_type, Value = Invalid, Required = False,
        Decode = [], Default = Invalid, Options = []\<rparr>,
      Some (errConversion ''http'' ''int'')) \<and>
   NewVarWithFunc std_ext (\<lambda>k. 0)
     \<lparr>field_Name = ''Port'', field_Type = int_type, field_Tag = ''options=80,http''\<rparr>
     (\<lambda>k. if k = ''PORT'' then ''8080'' else []) =
     Return \<lparr>Name = ''Port'', Key = ''PORT'', Type = int_type,
              Value = Val int_type (Int_data 8080), Required = False,
              Decode = [], Default = Invalid, Options = []\<rparr> None"
  by code_simp

subsection \<open>Required fields\<close>

text \<open>
  C6. An integer field with the tag \<^verbatim>\<open>required default=abc\<close> and a lookup with no value.
  When the loop visits \<^verbatim>\<open>default\<close> before \<^verbatim>\<open>required\<close>, \<open>Parse\<close> ends at the
  conversion error of \<^verbatim>\<open>abc\<close> and the descriptor is not marked required;
  \<open>NewVarWithFunc\<close> does not read that error and returns the zero of the type with no
  error. When the loop visits \<^verbatim>\<open>required\<close> first, it returns the error
  \<^verbatim>\<open>PORT required\<close>.
\<close>

theorem required_is_lost_after_failed_default:
  "map_of (tagParamsMap ''required default=abc'') ''required'' = Some [] \<and>
   Parse std_ext (\<lambda>k. if k = ''default'' then 0 else 1) new_Var
     \<lparr>field_Name = ''Port'', field_Type = int_type, field_Tag = ''required default=abc''\<rparr> =
     (\<lparr>Name = ''Port'', Key = ''PORT'', Type = int_type, Value = Invalid, Required = False,
        Decode = [], Default = Invalid, Options = []\<rparr>,
      Some (errConversion ''abc'' ''int'')) \<and>
   NewVarWithFunc std_ext (\<lambda>k. if k = ''default'' then 0 else 1)
     \<lparr>field_Name = ''Port'', field_Type = int_type, field_Tag = ''required default=abc''\<rparr>
     (\<lambda>k. []) =
     Return \<lparr>Name = ''Port'', Key = ''PORT'', Type = int_type,
              Value = Val int_type (Int_data 0), Required = False,
              Decode = [], Default = Invalid, Options = []\<rparr> None \<and>
   NewVarWithFunc std_ext (\<lambda>k. if k = ''default'' then 1 else 0)
     \<lparr>field_Name = ''Port'', field_Type = int_type, field_Tag = ''required default=abc''\<rparr>
     (\<lambda>k. []) =
     Return \<lparr>Name = ''Port'', Key = ''PORT'', Type = int_type,
              Value = Invalid, Required = True,
              Decode = [], Default = Invalid, Options = []\<rparr>
       (Some (errorString ''PORT required''))"
  by code_simp

subsection \<open>Defaults\<close>

text \<open>
  C7. An integer field with the tag \<^verbatim>\<open>default=5\<close> and a lookup with no value has the
  value 5. With the tag \<^verbatim>\<open>decode=bogus default=5\<close> the conversion of the default fails
  for the unsupported strategy, \<open>Parse\<close> returns that error and leaves the descriptor
  without a default; \<open>NewVarWithFunc\<close> does not read the error, and since the lookup has
  no value nothing else is converted: it returns the value 0 with no error.
\<close>

theorem default_is_lost_with_unsupported_decode:
  "NewVarWithFunc std_ext (\<lambda>k. 0)
     \<lparr>field_Name = ''Port'', field_Type = int_type, field_Tag = ''default=5''\<rparr>
     (\<lambda>k. []) =
     Return \<lparr>Name = ''Port'', Key = ''PORT'', Type = int_type,
              Value = Val int_type (Int_data 5), Required = False,
              Decode = [], Default = Val int_type (Int_data 5), Options = []\<rparr> None \<and>
   Parse std_ext (\<lambda>k. 0) new_Var
     \<lparr>field_Name = ''Port'', field_Type = int_type, field_Tag = ''decode=bogus default=5''\<rparr> =
     (\<lparr>Name = ''Port'', Key = ''PORT'', Type = int_type, Value = Invalid, Required = False,
        Decode = ''bogus'', Default = Invalid, Options = []\<rparr>,
      Some (errConversion ''bogus'' ''unsupported decode'')) \<and>
   NewVarWithFunc std_ext (\<lambda>k. 0)
     \<lparr>field_Name = ''Port'', field_Type = int_type, field_Tag = ''decode=bogus default=5''\<rparr>
     (\<lambda>k. []) =
     Return \<lparr>Name = ''Port'', Key = ''PORT'', Type = int_type,
              Value = Val int_type (Int_data 0), Required = False,
              Decode = ''bogus'', Default = Invalid, Options = []\<rparr> None"
  by code_simp

subsection \<open>Options\<close>

text \<open>
  C8. A string field with the tag \<^verbatim>\<open>options=a,,b\<close>. The empty element converts to the
  zero Value with no error, so \<open>Parse\<close> reports no error and the options are \<open>a\<close>, the
  zero Value and \<open>b\<close>. With the lookup value \<open>d\<close>, which is not an option, and with the
  lookup value \<open>b\<close>, which is one, \<^verbatim>\<open>optionsContains\<close> reaches the zero Value and calls
  \<^verbatim>\<open>Interface\<close> on it: \<open>NewVarWithFunc\<close> panics and returns neither a descriptor nor
  an error.
\<close>

theorem empty_option_panics:
  "Parse std_ext (\<lambda>k. 0) new_Var
     \<lparr>field_Name = ''Mode'', field_Type = string_type, field_Tag = ''options=a,,b''\<rparr> =
     (\<lparr>Name = ''Mode'', Key = ''MODE'', Type = string_type, Value = Invalid, Required = False,
        Decode = [], Default = Invalid,
        Options = [Val string_type (String_data ''a''), Invalid,
                   Val string_type (String_data ''b'')]\<rparr>, None) \<and>
   NewVarWithFunc std_ext (\<lambda>k. 0)
     \<lparr>field_Name = ''Mode'', field_Type = string_type, field_Tag = ''options=a,,b''\<rparr>
     (\<lambda>k. if k = ''MODE'' then ''d'' else []) = Panic \<and>
   NewVarWithFunc std_ext (\<lambda>k. 0)
     \<lparr>field_Name = ''Mode'', field_Type = string_type, field_Tag = ''options=a,,b''\<rparr>
     (\<lambda>k. if k = ''MODE'' then ''b'' else []) = Panic"
  by code_simp

text \<open>
  C10. A string field with the tag \<^verbatim>\<open>default=c options=a,,b\<close>, not required, and a
  lookup with no value. \<open>Parse\<close> reports no error; the value substituted is the default
  \<open>c\<close>, which is not among the options. The check of the options reaches the zero Value
  of the empty element and panics: \<open>NewVarWithFunc\<close> does not return the error for a value
  that is not allowed, in either order of the map.
\<close>

theorem empty_option_panics_on_default:
  "Parse std_ext (\<lambda>k. 0) new_Var
     \<lparr>field_Name = ''Mode'', field_Type = string_type,
        field_Tag = ''default=c options=a,,b''\<rparr> =
     (\<lparr>Name = ''Mode'', Key = ''MODE'', Type = string_type, Value = Invalid, Required = False,
        Decode = [], Default = Val string_type (String_data ''c''),
        Options = [Val string_type (String_data ''a''), Invalid,
                   Val string_type (String_data ''b'')]\<rparr>, None) \<and>
   NewVarWithFunc std_ext (\<lambda>k. 0)
     \<lparr>field_Name = ''Mode'', field_Type = string_type,
        field_Tag = ''default=c options=a,,b''\<rparr>
     (\<lambda>k. []) = Panic \<and>
   NewVarWithFunc std_ext (\<lambda>k. if k = ''options'' then 0 else 1)
     \<lparr>field_Name = ''Mode'', field_Type = string_type,
        field_Tag = ''default=c options=a,,b''\<rparr>
     (\<lambda>k. []) = Panic"
  by code_simp

end
